theory Spec2Isabelle
  imports Main
begin

section \<open>JavaScript values\<close>

text \<open>
  \<^verbatim>\<open>processUpdate(update: any)\<close> reads its argument dynamically: fields are looked up by
  name (\<^verbatim>\<open>message[messageType]\<close>), presence is tested by truthiness and reply
  correlation uses \<^verbatim>\<open>===\<close>. Updates are therefore modelled as untyped JavaScript
  values. Numbers are integers: the identifiers of the Bot API are integers, and
  \<^verbatim>\<open>NaN\<close>, fractions and the precision limit of doubles at \<open>2 ^ 53\<close> are outside the
  model. An object is an association list from keys to values (the first binding of a
  key is the one that is read).
\<close>

datatype jsval =
    JUndefined
  | JNull
  | JBool bool
  | JNum int
  | JStr string
  | JArr "jsval list"
  | JObj "(string \<times> jsval) list"

text \<open>ToBoolean: what \<^verbatim>\<open>if (v)\<close> tests.\<close>

fun truthy :: "jsval \<Rightarrow> bool" where
  "truthy JUndefined = False"
| "truthy JNull = False"
| "truthy (JBool b) = b"
| "truthy (JNum n) = (n \<noteq> 0)"
| "truthy (JStr s) = (s \<noteq> [])"
| "truthy (JArr xs) = True"
| "truthy (JObj kvs) = True"

text \<open>Reading a property of \<^verbatim>\<open>undefined\<close> or \<^verbatim>\<open>null\<close> throws a TypeError.\<close>

fun nullish :: "jsval \<Rightarrow> bool" where
  "nullish JUndefined = True"
| "nullish JNull = True"
| "nullish v = False"

text \<open>
  \<^verbatim>\<open>o[k]\<close> for a value \<open>o\<close> that is not nullish. A key that an object does not have
  reads as \<^verbatim>\<open>undefined\<close>, and so does every key this program reads on a primitive
  or an array (none of them is a built-in property).
\<close>

fun get :: "jsval \<Rightarrow> string \<Rightarrow> jsval" where
  "get (JObj kvs) k = (case map_of kvs k of None \<Rightarrow> JUndefined | Some v \<Rightarrow> v)"
| "get v k = JUndefined"

text \<open>
  \<^verbatim>\<open>onReplyToMessage(chatId: number | string, messageId: number | string, ...)\<close>: the
  identifiers a reply listener stores are numbers or strings.
\<close>

datatype idval = IdNum int | IdStr string

text \<open>
  \<^verbatim>\<open>reply.chatId === message.chat.id\<close>: strict equality of a stored identifier with
  a value read from the update. Values of different types are never strictly equal.
\<close>

fun strict_eq :: "idval \<Rightarrow> jsval \<Rightarrow> bool" where
  "strict_eq (IdNum a) (JNum b) = (a = b)"
| "strict_eq (IdStr a) (JStr b) = (a = b)"
| "strict_eq a v = False"

section \<open>Errors (errors.ts)\<close>

record base_error =
  err_code :: string
  err_message :: string

text \<open>\<^verbatim>\<open>super(`${code}: ${message}`); this.code = code;\<close>\<close>

definition BaseError :: "string \<Rightarrow> string \<Rightarrow> base_error" where
  "BaseError c m = \<lparr>err_code = c, err_message = c @ '': '' @ m\<rparr>"

text \<open>\<^verbatim>\<open>new FatalError(data)\<close> for a string \<open>data\<close>: the code is \<^verbatim>\<open>EFATAL\<close>.\<close>

definition FatalError :: "string \<Rightarrow> base_error" where
  "FatalError data = BaseError ''EFATAL'' data"

text \<open>
  A promise is represented by the way it settles. \<open>Unsettled\<close> is a promise of an
  engine that is still pending.
\<close>

datatype promise = Rejected base_error | Resolved | Unsettled

section \<open>The bot instance\<close>

text \<open>
  A subscriber callback is a function of the application. The model knows its identity
  (\<open>cb_name\<close>) and whether a call with a given message throws (\<open>cb_throws\<close>). Callbacks
  are taken not to call back into the bot while an update is being dispatched.
\<close>

record callback =
  cb_name :: string
  cb_throws :: "jsval \<Rightarrow> bool"

text \<open>
  A regular expression is a value of the runtime. \<open>re_exec r t\<close> is the result of
  \<^verbatim>\<open>r.exec(t)\<close>: \<open>None\<close> for \<^verbatim>\<open>null\<close>, otherwise the match array. (A regular
  expression with the \<^verbatim>\<open>g\<close> or \<^verbatim>\<open>y\<close> flag keeps a position between calls; such
  expressions are outside the model.)
\<close>

record regexp =
  re_source :: string
  re_exec :: "jsval \<Rightarrow> jsval option"

text \<open>The entries \<^verbatim>\<open>{regexp, callback}\<close> of \<^verbatim>\<open>_textRegexpCallbacks\<close>.\<close>

record text_matcher =
  tm_regexp :: regexp
  tm_callback :: callback

text \<open>The entries \<^verbatim>\<open>{id, chatId, messageId, callback}\<close> of \<^verbatim>\<open>_replyListeners\<close>.\<close>

record reply_listener =
  rl_id :: int
  rl_chatId :: idval
  rl_messageId :: idval
  rl_callback :: callback

text \<open>Of \<^verbatim>\<open>ITelegramBotOptions\<close> the dispatcher reads \<^verbatim>\<open>onlyFirstMatch?: any\<close>.\<close>

record bot_options =
  onlyFirstMatch :: jsval

text \<open>
  The fields of \<^verbatim>\<open>TelegramBot\<close>. \<open>'p\<close> and \<open>'w\<close> are the states of a
  \<^verbatim>\<open>TelegramBotPolling\<close> and a \<^verbatim>\<open>TelegramBotWebHook\<close> object; \<open>None\<close> is \<^verbatim>\<open>null\<close>.
\<close>

record ('p, 'w) bot =
  options :: bot_options
  textRegexpCallbacks :: "text_matcher list"
  replyListenerId :: int
  replyListeners :: "reply_listener list"
  polling :: "'p option"
  webHook :: "'w option"

text \<open>
  The classes \<^verbatim>\<open>TelegramBotPolling\<close> (./telegramPolling) and \<^verbatim>\<open>TelegramBotWebHook\<close>
  (./telegramWebHook) are imported by telegram.ts; their methods are parameters of
  the model. A method returns its promise and the new state of its object.
\<close>

record ('p, 'w) engines =
  newPolling :: "'p"
  pollingStart :: "bool \<Rightarrow> 'p \<Rightarrow> promise \<times> 'p"
  pollingStop :: "'p \<Rightarrow> promise \<times> 'p"
  pollingIsPolling :: "'p \<Rightarrow> bool"
  newWebHook :: "'w"
  webHookOpen :: "'w \<Rightarrow> promise \<times> 'w"
  webHookClose :: "'w \<Rightarrow> promise \<times> 'w"
  webHookIsOpen :: "'w \<Rightarrow> bool"

text \<open>
  The instance after the field initialisers of the constructor. (The constructor then
  calls \<^verbatim>\<open>startPolling\<close> and \<^verbatim>\<open>openWebHook\<close> as its options ask; these change the fields
  \<open>polling\<close> and \<open>webHook\<close> only.)
\<close>

definition newBot :: "bot_options \<Rightarrow> ('p, 'w) bot" where
  "newBot opts =
     \<lparr>options = opts, textRegexpCallbacks = [], replyListenerId = 0,
      replyListeners = [], polling = None, webHook = None\<rparr>"

section \<open>Transport lifecycle\<close>

definition isPolling :: "('p, 'w) engines \<Rightarrow> ('p, 'w) bot \<Rightarrow> bool" where
  "isPolling E this =
     (case polling this of Some p \<Rightarrow> pollingIsPolling E p | None \<Rightarrow> False)"

definition hasOpenWebHook :: "('p, 'w) engines \<Rightarrow> ('p, 'w) bot \<Rightarrow> bool" where
  "hasOpenWebHook E this =
     (case webHook this of Some w \<Rightarrow> webHookIsOpen E w | None \<Rightarrow> False)"

text \<open>
  \<^verbatim>\<open>startPolling(options: {restart?: boolean} = {})\<close>; \<open>restart\<close> is \<open>None\<close> when the
  option is undefined.
\<close>

definition startPolling ::
  "('p, 'w) engines \<Rightarrow> bool option \<Rightarrow> ('p, 'w) bot \<Rightarrow> promise \<times> ('p, 'w) bot" where
  "startPolling E restart this =
     (if hasOpenWebHook E this then
        (Rejected (FatalError ''Polling and WebHook are mutually exclusive''), this)
      else
        let restart' = (case restart of None \<Rightarrow> True | Some r \<Rightarrow> r);
            p = (case polling this of None \<Rightarrow> newPolling E | Some p \<Rightarrow> p);
            (res, p') = pollingStart E restart' p
        in (res, this\<lparr>polling := Some p'\<rparr>))"

definition stopPolling :: "('p, 'w) engines \<Rightarrow> ('p, 'w) bot \<Rightarrow> promise \<times> ('p, 'w) bot" where
  "stopPolling E this =
     (case polling this of
        None \<Rightarrow> (Resolved, this)
      | Some p \<Rightarrow> (let (res, p') = pollingStop E p in (res, this\<lparr>polling := Some p'\<rparr>)))"

definition openWebHook :: "('p, 'w) engines \<Rightarrow> ('p, 'w) bot \<Rightarrow> promise \<times> ('p, 'w) bot" where
  "openWebHook E this =
     (if isPolling E this then
        (Rejected (FatalError ''WebHook and Polling are mutually exclusive''), this)
      else
        let w = (case webHook this of None \<Rightarrow> newWebHook E | Some w \<Rightarrow> w);
            (res, w') = webHookOpen E w
        in (res, this\<lparr>webHook := Some w'\<rparr>))"

definition closeWebHook :: "('p, 'w) engines \<Rightarrow> ('p, 'w) bot \<Rightarrow> promise \<times> ('p, 'w) bot" where
  "closeWebHook E this =
     (case webHook this of
        None \<Rightarrow> (Resolved, this)
      | Some w \<Rightarrow> (let (res, w') = webHookClose E w in (res, this\<lparr>webHook := Some w'\<rparr>)))"

section \<open>Registration of text matchers and reply listeners\<close>

text \<open>\<^verbatim>\<open>this._textRegexpCallbacks.push({regexp, callback})\<close>\<close>

definition onText :: "regexp \<Rightarrow> callback \<Rightarrow> ('p, 'w) bot \<Rightarrow> ('p, 'w) bot" where
  "onText re cb this =
     this\<lparr>textRegexpCallbacks :=
            textRegexpCallbacks this @ [\<lparr>tm_regexp = re, tm_callback = cb\<rparr>]\<rparr>"

text \<open>\<^verbatim>\<open>const id = ++this._replyListenerId; this._replyListeners.push({...}); return id\<close>\<close>

definition onReplyToMessage ::
  "idval \<Rightarrow> idval \<Rightarrow> callback \<Rightarrow> ('p, 'w) bot \<Rightarrow> int \<times> ('p, 'w) bot" where
  "onReplyToMessage chatId messageId cb this =
     (let ident = replyListenerId this + 1
      in (ident,
          this\<lparr>replyListenerId := ident,
               replyListeners := replyListeners this @
                 [\<lparr>rl_id = ident, rl_chatId = chatId, rl_messageId = messageId,
                   rl_callback = cb\<rparr>]\<rparr>))"

text \<open>\<^verbatim>\<open>Array.prototype.findIndex\<close>: the first index whose element passes, or \<open>-1\<close>.\<close>

fun findIndex :: "('a \<Rightarrow> bool) \<Rightarrow> 'a list \<Rightarrow> int" where
  "findIndex P [] = -1"
| "findIndex P (x # xs) =
     (if P x then 0 else (let i = findIndex P xs in if i = -1 then -1 else i + 1))"

text \<open>
  \<^verbatim>\<open>removeReplyListener(replyListenerId: number)\<close>: \<open>None\<close> is the \<^verbatim>\<open>null\<close> it returns
  when no entry has the id; otherwise \<^verbatim>\<open>splice(index, 1)[0]\<close> takes the entry out.
\<close>

definition removeReplyListener ::
  "int \<Rightarrow> ('p, 'w) bot \<Rightarrow> reply_listener option \<times> ('p, 'w) bot" where
  "removeReplyListener ident this =
     (let index = findIndex (\<lambda>replyListener. rl_id replyListener = ident) (replyListeners this)
      in if index = -1 then (None, this)
         else (Some (replyListeners this ! nat index),
               this\<lparr>replyListeners :=
                      take (nat index) (replyListeners this) @
                      drop (nat index + 1) (replyListeners this)\<rparr>))"

section \<open>Dispatch of one update\<close>

text \<open>
  What \<^verbatim>\<open>processUpdate\<close> does is recorded as a trace: the notifications it emits,
  the regular expressions it executes and the callbacks it invokes, in order. The
  calls of \<^verbatim>\<open>debug\<close> only log and are left out. \<^verbatim>\<open>emit\<close> is the emitter of the
  runtime: it is taken to return, and the listeners attached to it are outside the
  model.
\<close>

datatype event =
    is_Emit: Emit (emit_name: string) (emit_payload: jsval)
  | is_Exec: Exec string jsval
  | is_CallText: CallText string jsval jsval
  | is_CallReply: CallReply string jsval

datatype exn = TypeError | Thrown string

datatype outcome = Returned | Raised exn

type_synonym run = "event list \<times> outcome"

text \<open>Sequencing: what follows a statement that raised is not executed.\<close>

fun andThen :: "run \<Rightarrow> run \<Rightarrow> run" where
  "andThen (t, Returned) r = (t @ fst r, snd r)"
| "andThen (t, Raised e) r = (t, Raised e)"

definition messageTypes :: "string list" where
  "messageTypes =
     [''text'', ''audio'', ''document'', ''photo'', ''sticker'', ''video'', ''voice'',
      ''contact'', ''location'', ''new_chat_participant'', ''left_chat_participant'',
      ''new_chat_title'', ''new_chat_photo'', ''delete_chat_photo'', ''group_chat_created'']"

text \<open>\<^verbatim>\<open>if (message[messageType]) this.emit(messageType, message)\<close>\<close>

definition processMessageType :: "jsval \<Rightarrow> string \<Rightarrow> event list" where
  "processMessageType message messageType =
     (if truthy (get message messageType) then [Emit messageType message] else [])"

text \<open>
  \<^verbatim>\<open>this._textRegexpCallbacks.some(reg => ...)\<close>: the loop goes on while the function
  returns a falsy value, and a callback that throws ends it with the exception.
\<close>

fun some_text :: "jsval \<Rightarrow> jsval \<Rightarrow> text_matcher list \<Rightarrow> run" where
  "some_text ofm message [] = ([], Returned)"
| "some_text ofm message (reg # regs) =
     (case re_exec (tm_regexp reg) (get message ''text'') of
        None \<Rightarrow>
          andThen ([Exec (re_source (tm_regexp reg)) (get message ''text'')], Returned)
            (some_text ofm message regs)
      | Some result \<Rightarrow>
          if cb_throws (tm_callback reg) message then
            ([Exec (re_source (tm_regexp reg)) (get message ''text''),
              CallText (cb_name (tm_callback reg)) message result],
             Raised (Thrown (cb_name (tm_callback reg))))
          else if truthy ofm then
            ([Exec (re_source (tm_regexp reg)) (get message ''text''),
              CallText (cb_name (tm_callback reg)) message result],
             Returned)
          else
            andThen
              ([Exec (re_source (tm_regexp reg)) (get message ''text''),
                CallText (cb_name (tm_callback reg)) message result],
               Returned)
              (some_text ofm message regs))"

text \<open>
  \<^verbatim>\<open>this._replyListeners.forEach(reply => ...)\<close>. \<^verbatim>\<open>message.chat.id\<close> is read for
  every listener and throws when the message has no chat.
\<close>

fun forEach_reply :: "jsval \<Rightarrow> reply_listener list \<Rightarrow> run" where
  "forEach_reply message [] = ([], Returned)"
| "forEach_reply message (reply # rest) =
     (if nullish (get message ''chat'') then ([], Raised TypeError)
      else if strict_eq (rl_chatId reply) (get (get message ''chat'') ''id'') then
        if strict_eq (rl_messageId reply)
             (get (get message ''reply_to_message'') ''message_id'') then
          if cb_throws (rl_callback reply) message then
            ([CallReply (cb_name (rl_callback reply)) message],
             Raised (Thrown (cb_name (rl_callback reply))))
          else
            andThen ([CallReply (cb_name (rl_callback reply)) message], Returned)
              (forEach_reply message rest)
        else forEach_reply message rest
      else forEach_reply message rest)"

text \<open>The branch \<^verbatim>\<open>if (message) { ... }\<close> of \<^verbatim>\<open>processUpdate\<close>.\<close>

definition processMessage :: "('p, 'w) bot \<Rightarrow> jsval \<Rightarrow> run" where
  "processMessage this message =
     andThen ([Emit ''message'' message], Returned)
    (andThen (concat (map (processMessageType message) messageTypes), Returned)
    (andThen
       (if truthy (get message ''text'') then
          some_text (onlyFirstMatch (options this)) message (textRegexpCallbacks this)
        else ([], Returned))
       (if truthy (get message ''reply_to_message'') then
          forEach_reply message (replyListeners this)
        else ([], Returned))))"

text \<open>
  \<^verbatim>\<open>processUpdate(update: any)\<close>. It assigns to no field of the instance: the
  instance it returns is the one it was given.
\<close>

definition processUpdate :: "('p, 'w) bot \<Rightarrow> jsval \<Rightarrow> run \<times> ('p, 'w) bot" where
  "processUpdate this update =
     (if nullish update then (([], Raised TypeError), this)
      else
        let message = get update ''message'';
            editedMessage = get update ''edited_message'';
            channelPost = get update ''channel_post'';
            editedChannelPost = get update ''edited_channel_post'';
            inlineQuery = get update ''inline_query'';
            chosenInlineResult = get update ''chosen_inline_result'';
            callbackQuery = get update ''callback_query''
        in
          (if truthy message then processMessage this message
           else if truthy editedMessage then
             ([Emit ''edited_message'' editedMessage]
              @ (if truthy (get editedMessage ''text'')
                 then [Emit ''edited_message_text'' editedMessage] else [])
              @ (if truthy (get editedMessage ''caption'')
                 then [Emit ''edited_message_caption'' editedMessage] else []),
              Returned)
           else if truthy channelPost then
             ([Emit ''channel_post'' channelPost], Returned)
           else if truthy editedChannelPost then
             ([Emit ''edited_channel_post'' editedChannelPost]
              @ (if truthy (get editedChannelPost ''text'')
                 then [Emit ''edited_channel_post_text'' editedChannelPost] else [])
              @ (if truthy (get editedChannelPost ''caption'')
                 then [Emit ''edited_channel_post_caption'' editedChannelPost] else []),
              Returned)
           else if truthy inlineQuery then
             ([Emit ''inline_query'' inlineQuery], Returned)
           else if truthy chosenInlineResult then
             ([Emit ''chosen_inline_result'' chosenInlineResult], Returned)
           else if truthy callbackQuery then
             ([Emit ''callback_query'' callbackQuery], Returned)
           else ([], Returned),
           this))"

section \<open>Notions used to state the properties\<close>

text \<open>The variant fields of an update, in the order in which the specification lists them.\<close>

definition variantFields :: "string list" where
  "variantFields =
     [''message'', ''edited_message'', ''channel_post'', ''edited_channel_post'',
      ''inline_query'', ''chosen_inline_result'', ''callback_query'']"

text \<open>The first populated variant field of an update, if it has one.\<close>

definition firstPopulated :: "jsval \<Rightarrow> string option" where
  "firstPopulated update = find (\<lambda>k. truthy (get update k)) variantFields"

text \<open>
  The notifications of a variant: its category notification, for a message the subtype
  notifications, and for the two edited variants the derived \<open>_text\<close> and \<open>_caption\<close>
  notifications.
\<close>

definition notifications_of :: "string \<Rightarrow> string list" where
  "notifications_of k =
     (if k = ''message'' then ''message'' # messageTypes
      else if k = ''edited_message'' \<or> k = ''edited_channel_post''
        then [k, k @ ''_text'', k @ ''_caption'']
      else [k])"

text \<open>
  An update is well formed for the dispatcher when it is a value with properties and
  the message it carries, if any, has a chat (the interface \<^verbatim>\<open>Message\<close> declares
  \<^verbatim>\<open>chat: User | GroupChat\<close> without a question mark).
\<close>

definition well_formed :: "jsval \<Rightarrow> bool" where
  "well_formed update =
     (\<not> nullish update \<and>
      (truthy (get update ''message'') \<longrightarrow> \<not> nullish (get (get update ''message'') ''chat'')))"

text \<open>The update without its \<^verbatim>\<open>update_id\<close>.\<close>

fun without_update_id :: "jsval \<Rightarrow> jsval" where
  "without_update_id (JObj kvs) = JObj (filter (\<lambda>kv. fst kv \<noteq> ''update_id'') kvs)"
| "without_update_id v = v"

text \<open>
  The invocation a text matcher is due on a message: none when its regular expression
  does not match the text, otherwise its callback with the message and the match result.
\<close>

definition text_call :: "jsval \<Rightarrow> text_matcher \<Rightarrow> event option" where
  "text_call message reg =
     (case re_exec (tm_regexp reg) (get message ''text'') of
        None \<Rightarrow> None
      | Some result \<Rightarrow> Some (CallText (cb_name (tm_callback reg)) message result))"




text \<open>
  A reply listener is for a message when its \<open>(chatId, messageId)\<close> equals the chat id
  of the message and the id of the message replied to.
\<close>

definition replies_to :: "jsval \<Rightarrow> reply_listener \<Rightarrow> bool" where
  "replies_to message reply =
     (strict_eq (rl_chatId reply) (get (get message ''chat'') ''id'') \<and>
      strict_eq (rl_messageId reply) (get (get message ''reply_to_message'') ''message_id''))"

definition reply_call :: "jsval \<Rightarrow> reply_listener \<Rightarrow> event" where
  "reply_call message reply = CallReply (cb_name (rl_callback reply)) message"

definition is_call :: "event \<Rightarrow> bool" where
  "is_call e = (is_CallText e \<or> is_CallReply e)"

text \<open>
  The callbacks due for a message, each with its invocation: those of the text matchers
  (only the first when \<^verbatim>\<open>onlyFirstMatch\<close> is truthy), then those of the reply listeners.
\<close>

definition due_text :: "jsval \<Rightarrow> jsval \<Rightarrow> text_matcher list \<Rightarrow> (callback \<times> event) list" where
  "due_text ofm message regs =
     (let ms = List.map_filter
                 (\<lambda>reg. map_option (Pair (tm_callback reg)) (text_call message reg)) regs
      in if truthy ofm then take 1 ms else ms)"

definition due_reply :: "jsval \<Rightarrow> reply_listener list \<Rightarrow> (callback \<times> event) list" where
  "due_reply message ls =
     map (\<lambda>reply. (rl_callback reply, reply_call message reply))
       (filter (replies_to message) ls)"


definition returns :: "jsval \<Rightarrow> callback \<times> event \<Rightarrow> bool" where
  "returns message d = (\<not> cb_throws (fst d) message)"

text \<open>The due callbacks up to and including the first one that throws.\<close>

definition upto_first_throw ::
  "jsval \<Rightarrow> (callback \<times> event) list \<Rightarrow> (callback \<times> event) list" where
  "upto_first_throw message due =
     takeWhile (returns message) due @ take 1 (dropWhile (returns message) due)"

text \<open>The exception of the first due callback that throws, if one does.\<close>

definition outcome_of :: "jsval \<Rightarrow> (callback \<times> event) list \<Rightarrow> outcome" where
  "outcome_of message due =
     (case dropWhile (returns message) due of
        [] \<Rightarrow> Returned
      | d # ds \<Rightarrow> Raised (Thrown (cb_name (fst d))))"

text \<open>
  The reply listener table of an instance built by the constructor and changed by
  \<^verbatim>\<open>onReplyToMessage\<close> and \<^verbatim>\<open>removeReplyListener\<close>: the counter is not negative,
  the ids are positive and at most the counter, and no two entries share one.
\<close>

definition ids_ok :: "('p, 'w) bot \<Rightarrow> bool" where
  "ids_ok this =
     (0 \<le> replyListenerId this \<and>
      distinct (map rl_id (replyListeners this)) \<and>
      (\<forall>l\<in>set (replyListeners this). 0 < rl_id l \<and> rl_id l \<le> replyListenerId this))"

section \<open>Example instances\<close>

definition demoEngines :: "(bool, bool) engines" where
  "demoEngines =
     \<lparr>newPolling = False,
      pollingStart = (\<lambda>restart p. (Resolved, True)),
      pollingStop = (\<lambda>p. (Resolved, False)),
      pollingIsPolling = (\<lambda>p. p),
      newWebHook = False,
      webHookOpen = (\<lambda>w. (Resolved, True)),
      webHookClose = (\<lambda>w. (Resolved, False)),
      webHookIsOpen = (\<lambda>w. w)\<rparr>"

definition plainOptions :: bot_options where
  "plainOptions = \<lparr>onlyFirstMatch = JUndefined\<rparr>"

definition hookBot :: "(bool, bool) bot" where
  "hookBot = snd (openWebHook demoEngines (newBot plainOptions))"

definition pollBot :: "(bool, bool) bot" where
  "pollBot = snd (startPolling demoEngines None (newBot plainOptions))"

definition cbA :: callback where
  "cbA = \<lparr>cb_name = ''A'', cb_throws = (\<lambda>message. False)\<rparr>"

definition cbB :: callback where
  "cbB = \<lparr>cb_name = ''B'', cb_throws = (\<lambda>message. False)\<rparr>"


text \<open>A regular expression that matches the text \<^verbatim>\<open>hello\<close> and nothing else.\<close>

definition reHello :: regexp where
  "reHello =
     \<lparr>re_source = ''^hello$'',
      re_exec = (\<lambda>t. if t = JStr ''hello'' then Some (JArr [JStr ''hello'']) else None)\<rparr>"

definition helloMessage :: jsval where
  "helloMessage =
     JObj [(''message_id'', JNum 5), (''chat'', JObj [(''id'', JNum 1)]),
           (''text'', JStr ''hello'')]"

definition helloUpdate :: jsval where
  "helloUpdate = JObj [(''update_id'', JNum 100), (''message'', helloMessage)]"

text \<open>Two matchers for \<^verbatim>\<open>hello\<close>, registered in the order A, B.\<close>

definition helloBot :: "jsval \<Rightarrow> (bool, bool) bot" where
  "helloBot ofm = onText reHello cbB (onText reHello cbA (newBot \<lparr>onlyFirstMatch = ofm\<rparr>))"


text \<open>A message in chat 1 that replies to message 5.\<close>

definition replyMessage :: jsval where
  "replyMessage =
     JObj [(''message_id'', JNum 6), (''chat'', JObj [(''id'', JNum 1)]),
           (''reply_to_message'', JObj [(''message_id'', JNum 5)])]"

definition replyUpdate :: jsval where
  "replyUpdate = JObj [(''update_id'', JNum 101), (''message'', replyMessage)]"

text \<open>Two reply listeners for \<open>(1, 5)\<close>, registered in the order A, B.\<close>

definition replyBot :: "(bool, bool) bot" where
  "replyBot =
     snd (onReplyToMessage (IdNum 1) (IdNum 5) cbB
       (snd (onReplyToMessage (IdNum 1) (IdNum 5) cbA (newBot plainOptions))))"



text \<open>A reply listener registered with the strings \<^verbatim>\<open>"1"\<close> and \<^verbatim>\<open>"5"\<close>.\<close>

definition stringBot :: "(bool, bool) bot" where
  "stringBot = snd (onReplyToMessage (IdStr ''1'') (IdStr ''5'') cbA (newBot plainOptions))"

text \<open>A message with an empty text.\<close>

definition emptyTextMessage :: jsval where
  "emptyTextMessage =
     JObj [(''message_id'', JNum 7), (''chat'', JObj [(''id'', JNum 1)]), (''text'', JStr [])]"

definition emptyTextUpdate :: jsval where
  "emptyTextUpdate = JObj [(''update_id'', JNum 102), (''message'', emptyTextMessage)]"

text \<open>A channel post with a text, and an edited message with a text and a caption.\<close>

definition channelPost :: jsval where
  "channelPost = JObj [(''message_id'', JNum 8), (''text'', JStr ''news'')]"


definition editedMessage :: jsval where
  "editedMessage =
     JObj [(''message_id'', JNum 9), (''text'', JStr ''fixed''), (''caption'', JStr ''cap'')]"


text \<open>An update with two populated variant fields, and one with none.\<close>

definition twoVariantUpdate :: jsval where
  "twoVariantUpdate =
     JObj [(''update_id'', JNum 105),
           (''callback_query'', JObj [(''data'', JStr ''x'')]),
           (''inline_query'', JObj [(''query'', JStr ''q'')])]"

definition emptyUpdate :: jsval where
  "emptyUpdate = JObj [(''update_id'', JNum 106)]"

section \<open>Transport lifecycle: mutual exclusion\<close>

text \<open>
  C1. Calling \<^verbatim>\<open>startPolling\<close> while \<^verbatim>\<open>hasOpenWebHook()\<close> is true rejects with a
  \<^verbatim>\<open>FatalError\<close> (code \<^verbatim>\<open>EFATAL\<close>) and leaves the instance, and so the webhook, as
  it was; calling \<^verbatim>\<open>openWebHook\<close> while \<^verbatim>\<open>isPolling()\<close> is true rejects in the same
  way and leaves the polling state as it was. This holds whatever the two engine
  classes do.
\<close>

theorem transports_mutually_exclusive:
  "(hasOpenWebHook E this \<longrightarrow>
      startPolling E restart this =
        (Rejected (FatalError ''Polling and WebHook are mutually exclusive''), this))
   \<and> (isPolling E this \<longrightarrow>
      openWebHook E this =
        (Rejected (FatalError ''WebHook and Polling are mutually exclusive''), this))
   \<and> err_code (FatalError msg) = ''EFATAL''"
  by (simp add: startPolling_def openWebHook_def FatalError_def BaseError_def)

lemma hookBot_open: "hasOpenWebHook demoEngines hookBot"
  by (simp add: hookBot_def openWebHook_def isPolling_def hasOpenWebHook_def newBot_def
      demoEngines_def)

lemma pollBot_polling: "isPolling demoEngines pollBot"
  by (simp add: pollBot_def startPolling_def isPolling_def hasOpenWebHook_def newBot_def
      demoEngines_def)

theorem transports_mutually_exclusive_witness:
  "hasOpenWebHook demoEngines hookBot
   \<and> startPolling demoEngines None hookBot =
       (Rejected \<lparr>err_code = ''EFATAL'',
                  err_message = ''EFATAL: Polling and WebHook are mutually exclusive''\<rparr>,
        hookBot)
   \<and> isPolling demoEngines pollBot
   \<and> openWebHook demoEngines pollBot =
       (Rejected \<lparr>err_code = ''EFATAL'',
                  err_message = ''EFATAL: WebHook and Polling are mutually exclusive''\<rparr>,
        pollBot)"
  using transports_mutually_exclusive [of demoEngines hookBot None]
    transports_mutually_exclusive [of demoEngines pollBot]
    hookBot_open pollBot_polling
  by (simp add: FatalError_def BaseError_def)

section \<open>Basic facts about the dispatcher\<close>

lemma andThen_fst: "fst (andThen r1 r2) = (if snd r1 = Returned then fst r1 @ fst r2 else fst r1)"
  by (cases r1; cases "snd r1") auto

lemma andThen_snd: "snd (andThen r1 r2) = (if snd r1 = Returned then snd r2 else snd r1)"
  by (cases r1; cases "snd r1") auto

lemma get_nullish: "nullish v \<Longrightarrow> get v k = JUndefined"
  by (cases v) simp_all

lemma truthy_get_not_nullish: "truthy (get v k) \<Longrightarrow> \<not> nullish v"
  by (cases v) simp_all

lemma processUpdate_message:
  "truthy (get update ''message'') \<Longrightarrow>
   processUpdate this update = (processMessage this (get update ''message''), this)"
  using truthy_get_not_nullish [of update "''message''"]
  by (simp add: processUpdate_def)

lemma processUpdate_same_instance: "snd (processUpdate this update) = this"
  by (simp add: processUpdate_def Let_def)

lemma types_are_emits:
  "e \<in> set (processMessageType message t) \<Longrightarrow> is_Emit e \<and> emit_payload e = message"
  by (auto simp: processMessageType_def split: if_splits)


lemma some_text_events:
  "e \<in> set (fst (some_text ofm message regs)) \<Longrightarrow> is_CallText e \<or> is_Exec e"
proof (induction regs)
  case Nil
  then show ?case by simp
next
  case (Cons reg regs)
  then show ?case
    by (cases "re_exec (tm_regexp reg) (get message ''text'')")
       (auto simp: andThen_fst split: if_splits)
qed

lemma forEach_reply_events:
  "e \<in> set (fst (forEach_reply message ls)) \<Longrightarrow> is_CallReply e"
proof (induction ls)
  case Nil
  then show ?case by simp
next
  case (Cons reply rest)
  then show ?case by (auto simp: andThen_fst split: if_splits)
qed



text \<open>The text matchers and the reply listeners when callbacks may throw.\<close>

lemma some_text_due:
  "filter is_call (fst (some_text ofm message regs)) =
     map snd (upto_first_throw message (due_text ofm message regs)) \<and>
   snd (some_text ofm message regs) = outcome_of message (due_text ofm message regs)"
proof (induction regs)
  case Nil
  show ?case by (simp add: due_text_def upto_first_throw_def outcome_of_def)
next
  case (Cons reg regs)
  then show ?case
    by (cases "re_exec (tm_regexp reg) (get message ''text'')")
       (simp_all add: due_text_def upto_first_throw_def outcome_of_def text_call_def
          map_filter_simps is_call_def returns_def Let_def)
qed

lemma forEach_reply_due:
  "\<not> nullish (get message ''chat'') \<Longrightarrow>
   fst (forEach_reply message ls) = map snd (upto_first_throw message (due_reply message ls)) \<and>
   snd (forEach_reply message ls) = outcome_of message (due_reply message ls)"
proof (induction ls)
  case Nil
  show ?case by (simp add: due_reply_def upto_first_throw_def outcome_of_def)
next
  case (Cons reply rest)
  then show ?case
    by (simp add: due_reply_def upto_first_throw_def outcome_of_def replies_to_def
          reply_call_def returns_def)
qed





lemma outcome_of_not_TypeError: "outcome_of message due \<noteq> Raised TypeError"
  by (simp add: outcome_of_def split: list.splits)




lemma types_names: "e \<in> set (processMessageType message t) \<Longrightarrow> emit_name e = t"
  by (auto simp: processMessageType_def split: if_splits)

section \<open>Text matchers\<close>




section \<open>Callbacks that throw\<close>




section \<open>Classification of an update\<close>

lemma processMessage_emits:
  "e \<in> set (fst (processMessage this message)) \<Longrightarrow> is_Emit e \<Longrightarrow>
   emit_payload e = message"
  by (auto simp: processMessage_def andThen_fst split: if_splits
      dest: types_are_emits some_text_events forEach_reply_events)

lemma firstPopulated_cases [consumes 1, case_names message edited_message channel_post
    edited_channel_post inline_query chosen_inline_result callback_query]:
  assumes "firstPopulated update = Some k"
  obtains
      (message) "k = ''message''" "truthy (get update ''message'')"
    | (edited_message) "k = ''edited_message''" "\<not> truthy (get update ''message'')"
        "truthy (get update ''edited_message'')"
    | (channel_post) "k = ''channel_post''" "\<not> truthy (get update ''message'')"
        "\<not> truthy (get update ''edited_message'')" "truthy (get update ''channel_post'')"
    | (edited_channel_post) "k = ''edited_channel_post''" "\<not> truthy (get update ''message'')"
        "\<not> truthy (get update ''edited_message'')" "\<not> truthy (get update ''channel_post'')"
        "truthy (get update ''edited_channel_post'')"
    | (inline_query) "k = ''inline_query''" "\<not> truthy (get update ''message'')"
        "\<not> truthy (get update ''edited_message'')" "\<not> truthy (get update ''channel_post'')"
        "\<not> truthy (get update ''edited_channel_post'')" "truthy (get update ''inline_query'')"
    | (chosen_inline_result) "k = ''chosen_inline_result''"
        "\<not> truthy (get update ''message'')"
        "\<not> truthy (get update ''edited_message'')" "\<not> truthy (get update ''channel_post'')"
        "\<not> truthy (get update ''edited_channel_post'')"
        "\<not> truthy (get update ''inline_query'')"
        "truthy (get update ''chosen_inline_result'')"
    | (callback_query) "k = ''callback_query''" "\<not> truthy (get update ''message'')"
        "\<not> truthy (get update ''edited_message'')" "\<not> truthy (get update ''channel_post'')"
        "\<not> truthy (get update ''edited_channel_post'')"
        "\<not> truthy (get update ''inline_query'')"
        "\<not> truthy (get update ''chosen_inline_result'')"
        "truthy (get update ''callback_query'')"
  using assms
  by (auto simp: firstPopulated_def variantFields_def split: if_splits)

lemma firstPopulated_not_nullish: "firstPopulated update = Some k \<Longrightarrow> \<not> nullish update"
  by (auto simp: firstPopulated_def variantFields_def get_nullish)

text \<open>
  C3. The variant fields are inspected in the order message, edited_message,
  channel_post, edited_channel_post, inline_query, chosen_inline_result,
  callback_query, and the first populated one alone decides what is done: the update
  is dispatched exactly as the update that has this one field only; the first thing
  done is to emit the category notification of this variant with its payload; and
  every notification emitted is one of this variant, with its payload, and none is the
  category notification of another variant.
\<close>

theorem first_populated_variant_wins:
  assumes "firstPopulated update = Some k"
  shows
    "processUpdate this update = processUpdate this (JObj [(k, get update k)])
     \<and> fst (fst (processUpdate this update)) \<noteq> []
     \<and> hd (fst (fst (processUpdate this update))) = Emit k (get update k)
     \<and> (\<forall>e\<in>set (fst (fst (processUpdate this update))).
          is_Emit e \<longrightarrow>
            emit_payload e = get update k \<and>
            emit_name e \<in> set (notifications_of k) \<and>
            (emit_name e \<in> set variantFields \<longrightarrow> emit_name e = k))"
proof -
  from assms have nn: "\<not> nullish update"
    by (rule firstPopulated_not_nullish)
  from assms show ?thesis
  proof (cases rule: firstPopulated_cases)
    case message
    let ?m = "get update ''message''"
    have run: "fst (processUpdate this update) = processMessage this ?m"
      using message by (simp add: processUpdate_message)
    have same: "processUpdate this update = processUpdate this (JObj [(k, get update k)])"
      using message by (simp add: processUpdate_message)
    have first: "fst (processMessage this ?m) \<noteq> []"
      "hd (fst (processMessage this ?m)) = Emit ''message'' ?m"
      by (simp_all add: processMessage_def andThen_fst)
    have names: "\<forall>e\<in>set (fst (processMessage this ?m)). is_Emit e \<longrightarrow>
        emit_name e \<in> set (''message'' # messageTypes)"
      by (auto simp: processMessage_def andThen_fst split: if_splits
          dest: types_names some_text_events forEach_reply_events)
    have other: "\<forall>n\<in>set (''message'' # messageTypes). n \<in> set variantFields \<longrightarrow> n = ''message''"
      by (simp add: messageTypes_def variantFields_def)
    show ?thesis
      unfolding run using message(1) same first names other
        processMessage_emits [of _ this ?m]
      by (auto simp: run notifications_of_def)
  next
    case edited_message
    with nn show ?thesis
      by (auto simp: processUpdate_def Let_def notifications_of_def variantFields_def)
  next
    case channel_post
    with nn show ?thesis
      by (auto simp: processUpdate_def Let_def notifications_of_def variantFields_def)
  next
    case edited_channel_post
    with nn show ?thesis
      by (auto simp: processUpdate_def Let_def notifications_of_def variantFields_def)
  next
    case inline_query
    with nn show ?thesis
      by (auto simp: processUpdate_def Let_def notifications_of_def variantFields_def)
  next
    case chosen_inline_result
    with nn show ?thesis
      by (auto simp: processUpdate_def Let_def notifications_of_def variantFields_def)
  next
    case callback_query
    with nn show ?thesis
      by (auto simp: processUpdate_def Let_def notifications_of_def variantFields_def)
  qed
qed

theorem first_populated_variant_wins_witness:
  "firstPopulated twoVariantUpdate = Some ''inline_query''
   \<and> fst (processUpdate replyBot twoVariantUpdate) =
       ([Emit ''inline_query'' (JObj [(''query'', JStr ''q'')])], Returned)
   \<and> hd (fst (fst (processUpdate replyBot twoVariantUpdate))) =
       Emit ''inline_query'' (JObj [(''query'', JStr ''q'')])"
proof -
  have fp: "firstPopulated twoVariantUpdate = Some ''inline_query''"
    by (simp add: firstPopulated_def variantFields_def twoVariantUpdate_def)
  show ?thesis
    using first_populated_variant_wins [OF fp, of replyBot] fp
    by (simp add: twoVariantUpdate_def processUpdate_def Let_def)
qed




section \<open>Malformed and well-formed updates\<close>

lemma get_without_update_id:
  "k \<noteq> ''update_id'' \<Longrightarrow> get (without_update_id update) k = get update k"
proof (cases update)
  case (JObj kvs)
  assume k: "k \<noteq> ''update_id''"
  have "map_of (filter (\<lambda>kv. fst kv \<noteq> ''update_id'') kvs) k = map_of kvs k"
    using k by (induction kvs) auto
  with JObj show ?thesis by simp
qed simp_all

lemma nullish_without_update_id: "nullish (without_update_id update) = nullish update"
  by (cases update) simp_all

text \<open>
  C8 as stated fails: \<^verbatim>\<open>processUpdate\<close> never reads \<^verbatim>\<open>update_id\<close>, so an update
  without one is dispatched like any other.
\<close>

theorem missing_update_id_counterexample:
  "get (without_update_id helloUpdate) ''update_id'' = JUndefined
   \<and> fst (processUpdate (newBot plainOptions :: (bool, bool) bot) (without_update_id helloUpdate)) =
       ([Emit ''message'' helloMessage, Emit ''text'' helloMessage], Returned)"
  by (simp add: helloUpdate_def helloMessage_def newBot_def plainOptions_def processUpdate_def
      processMessage_def messageTypes_def processMessageType_def Let_def)

text \<open>
  C8, amended. An update (a value other than \<^verbatim>\<open>null\<close> and \<^verbatim>\<open>undefined\<close>) with no
  populated variant field makes \<^verbatim>\<open>processUpdate\<close> emit nothing, invoke nothing and
  return. \<^verbatim>\<open>update_id\<close> is never inspected: an update is dispatched in the same way
  with it and without it. For a well-formed update \<^verbatim>\<open>processUpdate\<close> itself raises no
  error: it returns, or a subscriber callback has thrown.
\<close>

theorem no_variant_is_silent:
  "(\<not> nullish update \<and> firstPopulated update = None \<longrightarrow>
      fst (processUpdate this update) = ([], Returned))
   \<and> fst (processUpdate this (without_update_id update)) = fst (processUpdate this update)
   \<and> (well_formed update \<longrightarrow> snd (fst (processUpdate this update)) \<noteq> Raised TypeError)"
proof (intro conjI impI)
  assume "\<not> nullish update \<and> firstPopulated update = None"
  then show "fst (processUpdate this update) = ([], Returned)"
    by (simp add: firstPopulated_def variantFields_def processUpdate_def Let_def split: if_splits)
next
  show "fst (processUpdate this (without_update_id update)) = fst (processUpdate this update)"
    by (simp add: processUpdate_def Let_def get_without_update_id nullish_without_update_id
        del: without_update_id.simps)
next
  assume wf: "well_formed update"
  show "snd (fst (processUpdate this update)) \<noteq> Raised TypeError"
  proof (cases "truthy (get update ''message'')")
    case True
    with wf have chat: "\<not> nullish (get (get update ''message'') ''chat'')"
      by (simp add: well_formed_def)
    show ?thesis
      using True some_text_due [of "onlyFirstMatch (options this)" "get update ''message''"
          "textRegexpCallbacks this"]
        forEach_reply_due [OF chat, of "replyListeners this"]
      by (simp add: processUpdate_message processMessage_def andThen_snd
          outcome_of_not_TypeError)
  next
    case False
    with wf show ?thesis
      by (simp add: well_formed_def processUpdate_def Let_def)
  qed
qed

theorem no_variant_is_silent_witness:
  "\<not> nullish emptyUpdate \<and> firstPopulated emptyUpdate = None
   \<and> fst (processUpdate replyBot emptyUpdate) = ([], Returned)
   \<and> well_formed replyUpdate
   \<and> snd (fst (processUpdate replyBot replyUpdate)) \<noteq> Raised TypeError"
proof -
  have a: "\<not> nullish emptyUpdate \<and> firstPopulated emptyUpdate = None"
    by (simp add: emptyUpdate_def firstPopulated_def variantFields_def)
  have b: "well_formed replyUpdate"
    by (simp add: well_formed_def replyUpdate_def replyMessage_def)
  show ?thesis
    using no_variant_is_silent [of emptyUpdate replyBot] a
      no_variant_is_silent [of replyUpdate replyBot] b
    by simp
qed

section \<open>Reply listeners\<close>




lemma forEach_reply_skip:
  "\<not> replies_to message l \<Longrightarrow> \<not> nullish (get message ''chat'') \<Longrightarrow>
   forEach_reply message (ls1 @ l # ls2) = forEach_reply message (ls1 @ ls2)"
proof (induction ls1)
  case Nil
  then show ?case
    by (auto simp: replies_to_def)
next
  case (Cons reply rest)
  then show ?case by simp
qed

text \<open>
  C10. Reply correlation is strict: a listener registered with a string as chat id or
  as message id is not for a message whose chat id and replied-to message id are
  numbers, whatever the values, and the update is dispatched exactly as if the
  listener were not in the table.
\<close>

theorem string_ids_never_match_numbers:
  assumes "rl_chatId l = IdStr s \<or> rl_messageId l = IdStr s"
    and "get (get (get update ''message'') ''chat'') ''id'' = JNum a"
    and "get (get (get update ''message'') ''reply_to_message'') ''message_id'' = JNum b"
  shows
    "\<not> replies_to (get update ''message'') l
     \<and> fst (processUpdate (this\<lparr>replyListeners := ls1 @ l # ls2\<rparr>) update) =
       fst (processUpdate (this\<lparr>replyListeners := ls1 @ ls2\<rparr>) update)"
proof -
  from assms have no: "\<not> replies_to (get update ''message'') l"
    by (auto simp: replies_to_def)
  have chat: "\<not> nullish (get (get update ''message'') ''chat'')"
    using assms(2) get_nullish [of "get (get update ''message'') ''chat''" "''id''"] by auto
  have "fst (processUpdate (this\<lparr>replyListeners := ls1 @ l # ls2\<rparr>) update) =
      fst (processUpdate (this\<lparr>replyListeners := ls1 @ ls2\<rparr>) update)"
    by (simp add: processUpdate_def processMessage_def Let_def forEach_reply_skip [OF no chat]
        del: forEach_reply.simps)
  with no show ?thesis by simp
qed

theorem string_ids_never_match_numbers_witness:
  "replyListeners stringBot =
     [\<lparr>rl_id = 1, rl_chatId = IdStr ''1'', rl_messageId = IdStr ''5'', rl_callback = cbA\<rparr>]
   \<and> get (get replyMessage ''chat'') ''id'' = JNum 1
   \<and> get (get replyMessage ''reply_to_message'') ''message_id'' = JNum 5
   \<and> fst (processUpdate stringBot replyUpdate) = ([Emit ''message'' replyMessage], Returned)"
proof -
  let ?l = "\<lparr>rl_id = 1, rl_chatId = IdStr ''1'', rl_messageId = IdStr ''5'', rl_callback = cbA\<rparr>"
  have tbl: "stringBot = (stringBot\<lparr>replyListeners := [] @ ?l # []\<rparr>)"
    by (simp add: stringBot_def onReplyToMessage_def newBot_def Let_def)
  have a: "rl_chatId ?l = IdStr ''1'' \<or> rl_messageId ?l = IdStr ''1''"
    by simp
  have b: "get (get (get replyUpdate ''message'') ''chat'') ''id'' = JNum 1"
    by (simp add: replyUpdate_def replyMessage_def)
  have c: "get (get (get replyUpdate ''message'') ''reply_to_message'') ''message_id'' = JNum 5"
    by (simp add: replyUpdate_def replyMessage_def)
  have "fst (processUpdate (stringBot\<lparr>replyListeners := [] @ ?l # []\<rparr>) replyUpdate) =
      fst (processUpdate (stringBot\<lparr>replyListeners := [] @ []\<rparr>) replyUpdate)"
    using string_ids_never_match_numbers [OF a b c, where this = stringBot and ?ls1.0 = "[]"
        and ?ls2.0 = "[]"] by blast
  with tbl have "fst (processUpdate stringBot replyUpdate) =
      fst (processUpdate (stringBot\<lparr>replyListeners := []\<rparr>) replyUpdate)"
    by simp
  then show ?thesis
    by (simp add: stringBot_def replyUpdate_def replyMessage_def onReplyToMessage_def
        newBot_def plainOptions_def processUpdate_def processMessage_def messageTypes_def
        processMessageType_def Let_def)
qed

section \<open>Empty text\<close>

text \<open>
  C9. For a message whose text is the empty string, \<^verbatim>\<open>processUpdate\<close> emits the
  \<^verbatim>\<open>message\<close> notification first, emits no \<^verbatim>\<open>text\<close> notification, executes no
  regular expression and invokes no text matcher callback: the empty string is falsy.
\<close>

theorem empty_text_is_absent:
  assumes "truthy (get update ''message'')"
    and "get (get update ''message'') ''text'' = JStr []"
  shows
    "hd (fst (fst (processUpdate this update))) = Emit ''message'' (get update ''message'')
     \<and> (\<forall>e\<in>set (fst (fst (processUpdate this update))).
          (is_Emit e \<longrightarrow> emit_name e \<noteq> ''text'') \<and> \<not> is_Exec e \<and> \<not> is_CallText e)"
proof -
  let ?m = "get update ''message''"
  let ?types = "concat (map (processMessageType ?m) messageTypes)"
  let ?reply = "if truthy (get ?m ''reply_to_message'')
                then forEach_reply ?m (replyListeners this) else ([], Returned)"
  have trace: "fst (fst (processUpdate this update)) = Emit ''message'' ?m # ?types @ fst ?reply"
    using assms by (simp add: processUpdate_message processMessage_def andThen_fst)
  have types: "\<forall>e\<in>set ?types.
      (is_Emit e \<longrightarrow> emit_name e \<noteq> ''text'') \<and> \<not> is_Exec e \<and> \<not> is_CallText e"
    using assms(2) by (auto simp: processMessageType_def messageTypes_def)
  have reply: "\<forall>e\<in>set (fst ?reply).
      (is_Emit e \<longrightarrow> emit_name e \<noteq> ''text'') \<and> \<not> is_Exec e \<and> \<not> is_CallText e"
    by (auto dest: forEach_reply_events)
  show ?thesis
    unfolding trace using types reply by auto
qed

theorem empty_text_is_absent_witness:
  "get (get emptyTextUpdate ''message'') ''text'' = JStr []
   \<and> fst (processUpdate (helloBot (JBool False)) emptyTextUpdate) =
       ([Emit ''message'' emptyTextMessage], Returned)"
proof -
  have a: "truthy (get emptyTextUpdate ''message'')"
    by (simp add: emptyTextUpdate_def emptyTextMessage_def)
  have b: "get (get emptyTextUpdate ''message'') ''text'' = JStr []"
    by (simp add: emptyTextUpdate_def emptyTextMessage_def)
  note empty_text_is_absent [OF a b, of "helloBot (JBool False)"]
  with b show ?thesis
    by (simp add: emptyTextUpdate_def emptyTextMessage_def helloBot_def onText_def newBot_def
        processUpdate_def processMessage_def messageTypes_def processMessageType_def Let_def)
qed

section \<open>Removal of reply listeners\<close>

lemma findIndex_ge: "- 1 \<le> findIndex P xs"
  by (induction xs) (auto simp: Let_def)

lemma findIndex_none: "(findIndex P xs = - 1) = (\<forall>x\<in>set xs. \<not> P x)"
proof (induction xs)
  case Nil
  show ?case by simp
next
  case (Cons x xs)
  then show ?case
    using findIndex_ge [of P xs] by (auto simp: Let_def)
qed

lemma findIndex_found:
  assumes "distinct (map f xs)" and "l \<in> set xs"
  shows "0 \<le> findIndex (\<lambda>x. f x = f l) xs
     \<and> xs ! nat (findIndex (\<lambda>x. f x = f l) xs) = l
     \<and> take (nat (findIndex (\<lambda>x. f x = f l) xs)) xs
         @ drop (nat (findIndex (\<lambda>x. f x = f l) xs) + 1) xs = remove1 l xs"
  using assms
proof (induction xs)
  case Nil
  then show ?case by simp
next
  case (Cons x xs)
  show ?case
  proof (cases "f x = f l")
    case True
    with Cons.prems have "x = l"
      by (auto simp: image_iff)
    with True show ?thesis by simp
  next
    case False
    with Cons.prems have mem: "l \<in> set xs" and dist: "distinct (map f xs)" and ne: "x \<noteq> l"
      by auto
    let ?i = "findIndex (\<lambda>x. f x = f l) xs"
    from Cons.IH [OF dist mem] have ih: "0 \<le> ?i" "xs ! nat ?i = l"
      "take (nat ?i) xs @ drop (nat ?i + 1) xs = remove1 l xs"
      by simp_all
    from ih(1) have nat: "nat (?i + 1) = Suc (nat ?i)" and nz: "?i \<noteq> - 1"
      by simp_all
    have idx: "findIndex (\<lambda>x. f x = f l) (x # xs) = ?i + 1"
      using False nz by (simp add: Let_def)
    show ?thesis
      unfolding idx nat using ih ne by simp
  qed
qed

text \<open>The constructor establishes \<open>ids_ok\<close> and every operation keeps it.\<close>

lemma ids_ok_newBot: "ids_ok (newBot opts)"
  by (simp add: ids_ok_def newBot_def)

lemma ids_ok_onReplyToMessage:
  assumes "ids_ok this"
  shows "ids_ok (snd (onReplyToMessage chatId messageId cb this))
     \<and> fst (onReplyToMessage chatId messageId cb this) = replyListenerId this + 1
     \<and> \<lparr>rl_id = fst (onReplyToMessage chatId messageId cb this), rl_chatId = chatId,
          rl_messageId = messageId, rl_callback = cb\<rparr>
         \<in> set (replyListeners (snd (onReplyToMessage chatId messageId cb this)))"
proof -
  from assms have "\<forall>l\<in>set (replyListeners this). rl_id l \<noteq> replyListenerId this + 1"
    by (auto simp: ids_ok_def)
  with assms show ?thesis
    by (auto simp: ids_ok_def onReplyToMessage_def Let_def)
qed

lemma ids_ok_removeReplyListener:
  assumes "ids_ok this"
  shows "ids_ok (snd (removeReplyListener ident this))"
proof (cases "findIndex (\<lambda>replyListener. rl_id replyListener = ident) (replyListeners this) = - 1")
  case True
  with assms show ?thesis by (simp add: removeReplyListener_def)
next
  case False
  then obtain l where l: "l \<in> set (replyListeners this)" "rl_id l = ident"
    by (auto simp: findIndex_none)
  from assms have dist: "distinct (map rl_id (replyListeners this))"
    by (simp add: ids_ok_def)
  have "replyListeners (snd (removeReplyListener ident this)) = remove1 l (replyListeners this)"
    using False findIndex_found [OF dist l(1)] l(2)
    by (simp add: removeReplyListener_def Let_def)
  moreover have "replyListenerId (snd (removeReplyListener ident this)) = replyListenerId this"
    by (simp add: removeReplyListener_def Let_def)
  moreover have "set (remove1 l (replyListeners this)) \<subseteq> set (replyListeners this)"
    by (rule set_remove1_subset)
  moreover from dist have "distinct (map rl_id (remove1 l (replyListeners this)))"
    by (simp add: distinct_map distinct_remove1 inj_on_def)
  ultimately show ?thesis
    using assms by (auto simp: ids_ok_def)
qed

lemma ids_ok_other_operations:
  "ids_ok (onText re cb this) = ids_ok this"
  "ids_ok (snd (processUpdate this update)) = ids_ok this"
  "ids_ok (snd (startPolling E restart this)) = ids_ok this"
  "ids_ok (snd (stopPolling E this)) = ids_ok this"
  "ids_ok (snd (openWebHook E this)) = ids_ok this"
  "ids_ok (snd (closeWebHook E this)) = ids_ok this"
  by (simp_all add: ids_ok_def onText_def processUpdate_same_instance startPolling_def
      stopPolling_def openWebHook_def closeWebHook_def Let_def
      split: option.splits prod.splits)

text \<open>
  C6. For a listener in the table (put there by \<^verbatim>\<open>onReplyToMessage\<close>, which returned
  its id: \<open>ids_ok_onReplyToMessage\<close>), \<^verbatim>\<open>removeReplyListener\<close> with this id returns
  the entry, with its id, chat id, message id and callback, and takes it out of
  the table; a second call with the same id returns \<^verbatim>\<open>null\<close> and leaves the instance
  as it is; and a call with an id that was never issued (not positive, or beyond the
  counter) returns \<^verbatim>\<open>null\<close> and leaves the instance as it is.
\<close>

theorem removeReplyListener_once:
  assumes "ids_ok this" and "l \<in> set (replyListeners this)"
  shows
    "removeReplyListener (rl_id l) this =
       (Some l, this\<lparr>replyListeners := remove1 l (replyListeners this)\<rparr>)
     \<and> removeReplyListener (rl_id l) (snd (removeReplyListener (rl_id l) this)) =
       (None, snd (removeReplyListener (rl_id l) this))
     \<and> (\<forall>j. j \<le> 0 \<or> replyListenerId this < j \<longrightarrow> removeReplyListener j this = (None, this))"
proof -
  let ?xs = "replyListeners this"
  let ?i = "findIndex (\<lambda>replyListener. rl_id replyListener = rl_id l) ?xs"
  from assms(1) have dist: "distinct (map rl_id ?xs)"
    by (simp add: ids_ok_def)
  from findIndex_found [OF dist assms(2)] have found: "0 \<le> ?i" "?xs ! nat ?i = l"
    "take (nat ?i) ?xs @ drop (nat ?i + 1) ?xs = remove1 l ?xs"
    by simp_all
  from found(1) have "?i \<noteq> - 1" by simp
  with found have first: "removeReplyListener (rl_id l) this =
      (Some l, this\<lparr>replyListeners := remove1 l ?xs\<rparr>)"
    by (simp add: removeReplyListener_def Let_def)
  have gone: "\<forall>x\<in>set (remove1 l ?xs). rl_id x \<noteq> rl_id l"
  proof
    fix x assume x: "x \<in> set (remove1 l ?xs)"
    from dist have "distinct ?xs" by (simp add: distinct_map)
    with x have "x \<in> set ?xs" "x \<noteq> l" by auto
    with dist assms(2) show "rl_id x \<noteq> rl_id l"
      by (auto simp: distinct_map inj_on_def)
  qed
  then have "findIndex (\<lambda>replyListener. rl_id replyListener = rl_id l) (remove1 l ?xs) = - 1"
    by (simp add: findIndex_none)
  then have second: "removeReplyListener (rl_id l) (snd (removeReplyListener (rl_id l) this)) =
      (None, snd (removeReplyListener (rl_id l) this))"
    unfolding first by (simp add: removeReplyListener_def)
  have never: "\<forall>j. j \<le> 0 \<or> replyListenerId this < j \<longrightarrow>
      removeReplyListener j this = (None, this)"
  proof (intro allI impI)
    fix j assume j: "j \<le> 0 \<or> replyListenerId this < j"
    with assms(1) have "\<forall>x\<in>set ?xs. rl_id x \<noteq> j"
      by (auto simp: ids_ok_def)
    then have "findIndex (\<lambda>replyListener. rl_id replyListener = j) ?xs = - 1"
      by (simp add: findIndex_none)
    then show "removeReplyListener j this = (None, this)"
      by (simp add: removeReplyListener_def)
  qed
  from first second never show ?thesis by blast
qed

theorem removeReplyListener_once_witness:
  "fst (onReplyToMessage (IdNum 1) (IdNum 5) cbA (newBot plainOptions :: (bool, bool) bot)) = 1
   \<and> fst (removeReplyListener 1 replyBot) =
       Some \<lparr>rl_id = 1, rl_chatId = IdNum 1, rl_messageId = IdNum 5, rl_callback = cbA\<rparr>
   \<and> replyListeners (snd (removeReplyListener 1 replyBot)) =
       [\<lparr>rl_id = 2, rl_chatId = IdNum 1, rl_messageId = IdNum 5, rl_callback = cbB\<rparr>]
   \<and> removeReplyListener 1 (snd (removeReplyListener 1 replyBot)) =
       (None, snd (removeReplyListener 1 replyBot))
   \<and> removeReplyListener 3 replyBot = (None, replyBot)"
proof -
  let ?l = "\<lparr>rl_id = 1, rl_chatId = IdNum 1, rl_messageId = IdNum 5, rl_callback = cbA\<rparr>"
  have tbl: "replyListeners replyBot =
      [?l, \<lparr>rl_id = 2, rl_chatId = IdNum 1, rl_messageId = IdNum 5, rl_callback = cbB\<rparr>]"
    "replyListenerId replyBot = 2"
    by (simp_all add: replyBot_def onReplyToMessage_def newBot_def Let_def)
  have ok: "ids_ok replyBot"
    by (simp add: ids_ok_def tbl)
  have mem: "?l \<in> set (replyListeners replyBot)"
    by (simp add: tbl)
  have issued: "fst (onReplyToMessage (IdNum 1) (IdNum 5) cbA
      (newBot plainOptions :: (bool, bool) bot)) = 1"
    by (simp add: onReplyToMessage_def newBot_def Let_def)
  note once = removeReplyListener_once [OF ok mem]
  from once [THEN conjunct1] have first: "removeReplyListener 1 replyBot =
      (Some ?l, replyBot\<lparr>replyListeners := remove1 ?l (replyListeners replyBot)\<rparr>)"
    by simp
  from once [THEN conjunct2, THEN conjunct1]
  have second: "removeReplyListener 1 (snd (removeReplyListener 1 replyBot)) =
      (None, snd (removeReplyListener 1 replyBot))"
    by simp
  from once [THEN conjunct2, THEN conjunct2] have never: "removeReplyListener 3 replyBot = (None, replyBot)"
    by (simp add: tbl)
  from first have removed: "fst (removeReplyListener 1 replyBot) = Some ?l"
    "replyListeners (snd (removeReplyListener 1 replyBot)) =
       [\<lparr>rl_id = 2, rl_chatId = IdNum 1, rl_messageId = IdNum 5, rl_callback = cbB\<rparr>]"
    by (simp_all add: tbl)
  from issued removed second never show ?thesis
    by (simp only: simp_thms)
qed

end
